theory Spec2Isabelle
  imports Complex_Main "HOL-Library.Sublist"
begin

section \<open>Python strings\<close>

text \<open>
  A Python \<open>str\<close> is modelled as a HOL \<open>string\<close>. HOL characters are bytes, so text
  outside ASCII stands as its UTF-8 bytes (the peso sign U+20B1 is the three bytes
  \<open>E2 82 B1\<close>), and \<open>lower\<close> and \<open>strip\<close> act on the ASCII letters and the ASCII
  white space, which is where they act on the keywords and cells of this module.
\<close>

definition lower_char :: "char \<Rightarrow> char" where
  "lower_char c =
     (case map_of (zip ''ABCDEFGHIJKLMNOPQRSTUVWXYZ'' ''abcdefghijklmnopqrstuvwxyz'') c of
        Some d \<Rightarrow> d
      | None \<Rightarrow> c)"

definition lower :: "string \<Rightarrow> string" where
  "lower s = map lower_char s"

definition is_space :: "char \<Rightarrow> bool" where
  "is_space c =
     (c \<in> set [CHR 0x09, CHR 0x0A, CHR 0x0B, CHR 0x0C, CHR 0x0D,
                CHR 0x1C, CHR 0x1D, CHR 0x1E, CHR 0x1F, CHR 0x20])"

definition strip :: "string \<Rightarrow> string" where
  "strip s = rev (dropWhile is_space (rev (dropWhile is_space s)))"

text \<open>\<open>kw in s\<close>: the keyword occurs in \<open>s\<close> as a contiguous substring.\<close>

definition contains :: "string \<Rightarrow> string \<Rightarrow> bool" where
  "contains s kw = sublist kw s"

text \<open>\<open>sep.join(xs)\<close>.\<close>

fun join :: "string \<Rightarrow> string list \<Rightarrow> string" where
  "join sep [] = []"
| "join sep [x] = x"
| "join sep (x # y # ys) = x @ sep @ join sep (y # ys)"

text \<open>
  \<open>s.replace(old, '')\<close>: every occurrence of \<open>old\<close> is removed, scanning from the left
  without overlap; an empty \<open>old\<close> leaves the string as it is.
\<close>

function remove_all :: "string \<Rightarrow> string \<Rightarrow> string" where
  "remove_all old [] = []"
| "remove_all old (c # cs) =
     (if old \<noteq> [] \<and> prefix old (c # cs)
      then remove_all old (drop (length old) (c # cs))
      else c # remove_all old cs)"
  by pat_completeness auto
termination
  by (relation "measure (\<lambda>(old, s). length s)") (auto simp: neq_Nil_conv)

definition peso :: string where
  "peso = [CHR 0xE2, CHR 0x82, CHR 0xB1]"

text \<open>Truthiness of a value that is \<open>None\<close> or a string.\<close>

fun truthy :: "string option \<Rightarrow> bool" where
  "truthy None = False"
| "truthy (Some s) = (s \<noteq> [])"

section \<open>Cells, data frames and the libraries the module calls\<close>

text \<open>
  A cell of a data frame holds a string as the sheet stores it, a number (\<open>None\<close> is NaN)
  or a timestamp (\<open>None\<close> is NaT). Floats are modelled as reals and timestamps as
  nanoseconds since the epoch.
\<close>

datatype cell = Str string | Num "real option" | Time "int option"

record frame =
  columns :: "string list"
  rows :: "(string \<Rightarrow> cell) list"

text \<open>
  The functions of pandas, fuzzywuzzy and the clock are parameters of the model.
  \<open>to_numeric\<close> and \<open>to_datetime\<close> are called with \<open>errors='coerce'\<close> on a whole column:
  the result \<open>None\<close> is a call that raises, \<open>Some f\<close> a call that returns, with \<open>f v\<close>
  the value the call gives the element \<open>v\<close> of that column (\<open>None\<close> for NaN or NaT).
  \<open>fmt\<close> is Python's \<open>str\<close> on a number or a timestamp, \<open>ratio\<close> is \<open>fuzz.ratio\<close> and
  \<open>now\<close> is \<open>datetime.now()\<close>.
\<close>

record env =
  to_numeric :: "cell list \<Rightarrow> (cell \<Rightarrow> real option) option"
  to_datetime :: "cell list \<Rightarrow> (cell \<Rightarrow> int option) option"
  fmt :: "cell \<Rightarrow> string"
  ratio :: "string \<Rightarrow> string \<Rightarrow> int"
  now :: int

definition py_str :: "env \<Rightarrow> cell \<Rightarrow> string" where
  "py_str L c = (case c of Str s \<Rightarrow> s | _ \<Rightarrow> fmt L c)"

text \<open>\<open>d[k] = v\<close> on a dictionary kept in insertion order.\<close>

fun dict_set :: "('k \<times> 'v) list \<Rightarrow> 'k \<Rightarrow> 'v \<Rightarrow> ('k \<times> 'v) list" where
  "dict_set [] k v = [(k, v)]"
| "dict_set ((k', v') # d) k v =
     (if k' = k then (k, v) # d else (k', v') # dict_set d k v)"

text \<open>
  \<open>pd.DataFrame(records)\<close> on a non-empty list of dictionaries that all have the same
  keys: the columns are the keys in insertion order, one row per dictionary. A key
  that a dictionary lacks reads as NaN.
\<close>

definition row_of_dict :: "(string \<times> string) list \<Rightarrow> string \<Rightarrow> cell" where
  "row_of_dict d = (\<lambda>k. case map_of d k of Some v \<Rightarrow> Str v | None \<Rightarrow> Num None)"

definition DataFrame :: "(string \<times> string) list list \<Rightarrow> frame" where
  "DataFrame records =
     \<lparr>columns = (case records of [] \<Rightarrow> [] | d # _ \<Rightarrow> map fst d),
      rows = map row_of_dict records\<rparr>"

text \<open>\<open>df[c]\<close> and \<open>df[name] = values\<close>, the values given row by row.\<close>

definition column :: "frame \<Rightarrow> string \<Rightarrow> cell list" where
  "column df c = map (\<lambda>r. r c) (rows df)"

definition assign :: "frame \<Rightarrow> string \<Rightarrow> ((string \<Rightarrow> cell) \<Rightarrow> cell) \<Rightarrow> frame" where
  "assign df name f =
     \<lparr>columns = (if name \<in> set (columns df) then columns df else columns df @ [name]),
      rows = map (\<lambda>r. r(name := f r)) (rows df)\<rparr>"

section \<open>Header discovery and record assembly\<close>

definition header_keywords :: "string list" where
  "header_keywords = [''date'', ''amount'', ''store'', ''merchant'', ''category'']"

definition row_text :: "string list \<Rightarrow> string" where
  "row_text row = join '' '' (map lower row)"

definition is_header_row :: "string list \<Rightarrow> bool" where
  "is_header_row row =
     (3 \<le> length row \<and> (\<exists>keyword \<in> set header_keywords. contains (row_text row) keyword))"

text \<open>
  The header test as the specification words it: the lower-cased cells are concatenated,
  with nothing between them.
\<close>

definition header_by_concatenation :: "string list \<Rightarrow> bool" where
  "header_by_concatenation row =
     (3 \<le> length row
      \<and> (\<exists>keyword \<in> set header_keywords. contains (concat (map lower row)) keyword))"

text \<open>The scan \<open>for i, row in enumerate(all_values)\<close> that stops at the first header row.\<close>

fun find_header :: "nat \<Rightarrow> string list list \<Rightarrow> nat option" where
  "find_header i [] = None"
| "find_header i (row # rest) =
     (if is_header_row row then Some i else find_header (Suc i) rest)"

definition default_headers :: "string list" where
  "default_headers =
     [''Date'', ''Store/Merchant'', ''Amount'', ''Category'', ''Payment Method'',
      ''Notes'', ''Receipt Date'', ''Added Date'']"

text \<open>The headers and the index of the first data row.\<close>

definition split_header :: "string list list \<Rightarrow> string list \<times> nat" where
  "split_header all_values =
     (case find_header 0 all_values of
        None \<Rightarrow> (default_headers, 0)
      | Some i \<Rightarrow> (all_values ! i, i + 1))"

definition make_record :: "string list \<Rightarrow> string list \<Rightarrow> (string \<times> string) list" where
  "make_record headers row =
     foldl (\<lambda>record (col_idx, header).
              dict_set record header (if col_idx < length row then row ! col_idx else []))
       [] (enumerate 0 headers)"

definition has_data :: "string list \<Rightarrow> bool" where
  "has_data vals = (\<exists>v \<in> set vals. strip v \<noteq> [])"

text \<open>
  Lines 59 to 86 of \<open>get_expenses_dataframe\<close>: rows without data are dropped, a record
  is made of each row that is left, records without data are dropped, and the records
  make the data frame.
\<close>

definition build_frame :: "string list \<Rightarrow> string list list \<Rightarrow> frame option" where
  "build_frame headers data_rows0 =
     (let data_rows = filter has_data data_rows0 in
      if data_rows = [] then None
      else
        let records = filter (\<lambda>record. has_data (map snd record))
                        (map (make_record headers) data_rows) in
        if records = [] then None else Some (DataFrame records))"

text \<open>
  Lines 25 to 86: from the rows of the sheet to the data frame of the records, or
  \<open>None\<close>.
\<close>

definition assemble :: "string list list \<Rightarrow> frame option" where
  "assemble all_values =
     (if all_values = [] then None
      else
        let (headers, data_start_index) = split_header all_values in
        if data_start_index < length all_values
        then build_frame headers (drop data_start_index all_values)
        else None)"

section \<open>Column roles, normalization and the final filter\<close>

text \<open>
  Lines 89 to 107: the amount column is the first column whose lower-cased name
  contains \<open>amount\<close>; failing that, the first column on which \<open>to_numeric\<close> returns and
  gives a number for at least one row.
\<close>

definition has_numeric :: "env \<Rightarrow> frame \<Rightarrow> string \<Rightarrow> bool" where
  "has_numeric L df col =
     (case to_numeric L (column df col) of
        None \<Rightarrow> False
      | Some f \<Rightarrow> (\<exists>v \<in> set (column df col). f v \<noteq> None))"

definition find_amount_col :: "env \<Rightarrow> frame \<Rightarrow> string option" where
  "find_amount_col L df =
     (let amount_col = find (\<lambda>col. contains (lower col) ''amount'') (columns df) in
      if \<not> truthy amount_col
      then (case find (has_numeric L df) (columns df) of
              Some col \<Rightarrow> Some col
            | None \<Rightarrow> amount_col)
      else amount_col)"

text \<open>Line 111: the chain of \<open>str.replace\<close> calls on an amount cell.\<close>

definition clean_amount_text :: "string \<Rightarrow> string" where
  "clean_amount_text s =
     remove_all ''$'' (remove_all ''P'' (remove_all ''PHP'' (remove_all peso (remove_all '','' s))))"

text \<open>The characters of the markers that the chain removes.\<close>

definition marker_chars :: "char set" where
  "marker_chars = set ('',$PH'' @ peso)"

text \<open>
  Lines 109 to 116: the column \<open>Amount\<close> is set to the cleaned text and then to its
  numeric value. Without an amount column, and when \<open>to_numeric\<close> raises, the result
  is \<open>None\<close>.
\<close>

definition clean_amount :: "env \<Rightarrow> frame \<Rightarrow> frame option" where
  "clean_amount L df =
     (let amount_col = find_amount_col L df in
      case amount_col of
        None \<Rightarrow> None
      | Some col \<Rightarrow>
          if col = [] then None
          else
            let df1 = assign df ''Amount'' (\<lambda>r. Str (clean_amount_text (py_str L (r col)))) in
            (case to_numeric L (column df1 ''Amount'') of
               None \<Rightarrow> None
             | Some f \<Rightarrow> Some (assign df1 ''Amount'' (\<lambda>r. Num (f (r ''Amount''))))))"

text \<open>
  Lines 119 to 139: the date column is the first column whose lower-cased name contains
  \<open>date\<close> and neither \<open>added\<close> nor \<open>receipt\<close>; failing that, the first column on which
  \<open>to_datetime\<close> returns and gives a timestamp for at least one row. The column \<open>Date\<close>
  is set only when one of the two is found.
\<close>

definition is_date_header :: "string \<Rightarrow> bool" where
  "is_date_header col =
     (contains (lower col) ''date'' \<and> \<not> contains (lower col) ''added''
      \<and> \<not> contains (lower col) ''receipt'')"

fun date_fallback :: "env \<Rightarrow> frame \<Rightarrow> string list \<Rightarrow> frame" where
  "date_fallback L df [] = df"
| "date_fallback L df (col # cols) =
     (case to_datetime L (column df col) of
        None \<Rightarrow> date_fallback L df cols
      | Some g \<Rightarrow>
          if \<exists>v \<in> set (column df col). g v \<noteq> None
          then assign df ''Date'' (\<lambda>r. Time (g (r col)))
          else date_fallback L df cols)"

definition clean_date :: "env \<Rightarrow> frame \<Rightarrow> frame option" where
  "clean_date L df =
     (let date_col = find is_date_header (columns df) in
      case date_col of
        None \<Rightarrow> Some (date_fallback L df (columns df))
      | Some col \<Rightarrow>
          if col = [] then Some (date_fallback L df (columns df))
          else
            (case to_datetime L (column df col) of
               None \<Rightarrow> None
             | Some g \<Rightarrow> Some (assign df ''Date'' (\<lambda>r. Time (g (r col))))))"

text \<open>
  A date role is identified on a frame when a column has a date header, or when some
  column parses as dates for at least one row.
\<close>

definition date_like :: "env \<Rightarrow> frame \<Rightarrow> string \<Rightarrow> bool" where
  "date_like L df col =
     (case to_datetime L (column df col) of
        None \<Rightarrow> False
      | Some g \<Rightarrow> (\<exists>v \<in> set (column df col). g v \<noteq> None))"

definition date_role :: "env \<Rightarrow> frame \<Rightarrow> bool" where
  "date_role L df =
     (truthy (find is_date_header (columns df)) \<or> (\<exists>col \<in> set (columns df). date_like L df col))"

text \<open>Lines 141 to 157: the category and the merchant column are copied.\<close>

definition copy_category :: "frame \<Rightarrow> frame" where
  "copy_category df =
     (case find (\<lambda>col. contains (lower col) ''category'') (columns df) of
        None \<Rightarrow> df
      | Some col \<Rightarrow> assign df ''Category'' (\<lambda>r. r col))"

definition is_merchant_header :: "string \<Rightarrow> bool" where
  "is_merchant_header col =
     (\<exists>word \<in> set [''store'', ''merchant'', ''vendor'']. contains (lower col) word)"

definition copy_merchant :: "frame \<Rightarrow> frame" where
  "copy_merchant df =
     (case find is_merchant_header (columns df) of
        None \<Rightarrow> df
      | Some col \<Rightarrow> assign df ''Store/Merchant'' (\<lambda>r. r col))"

text \<open>
  The frame just before line 159, with every role column set: \<open>None\<close> when no amount
  column was found or a library call raised.
\<close>

definition normalize :: "env \<Rightarrow> frame \<Rightarrow> frame option" where
  "normalize L df =
     (case clean_amount L df of
        None \<Rightarrow> None
      | Some df1 \<Rightarrow>
          (case clean_date L df1 of
             None \<Rightarrow> None
           | Some df2 \<Rightarrow> Some (copy_merchant (copy_category df2))))"

text \<open>
  Lines 159 to 165. \<open>notna\<close> is pandas' test for a value that is neither NaN nor NaT;
  \<open>positive\<close> is \<open>> 0\<close> on a numeric cell (the column \<open>Amount\<close> holds numbers only).
\<close>

fun notna :: "cell \<Rightarrow> bool" where
  "notna (Str s) = True"
| "notna (Num x) = (x \<noteq> None)"
| "notna (Time t) = (t \<noteq> None)"

fun positive :: "cell \<Rightarrow> bool" where
  "positive (Num (Some a)) = (0 < a)"
| "positive c = False"

definition select :: "frame \<Rightarrow> ((string \<Rightarrow> cell) \<Rightarrow> bool) \<Rightarrow> frame" where
  "select df keep = df\<lparr>rows := filter keep (rows df)\<rparr>"

definition filter_invalid :: "frame \<Rightarrow> frame" where
  "filter_invalid df =
     (let df1 = select df (\<lambda>r. notna (r ''Amount''));
          df2 = select df1 (\<lambda>r. positive (r ''Amount''))
      in if ''Date'' \<in> set (columns df2)
         then select df2 (\<lambda>r. notna (r ''Date''))
         else df2)"

definition empty :: "frame \<Rightarrow> bool" where
  "empty df = (rows df = [] \<or> columns df = [])"

text \<open>
  Lines 25 to 157, as a function of the rows that \<open>get_all_values\<close> returned: the frame
  with its role columns, before the invalid rows are filtered out.
\<close>

definition tidy :: "env \<Rightarrow> string list list \<Rightarrow> frame option" where
  "tidy L all_values =
     (case assemble all_values of
        None \<Rightarrow> None
      | Some df0 \<Rightarrow> normalize L df0)"

text \<open>
  \<open>get_expenses_dataframe\<close> from line 25 on: \<open>None\<close> is the \<open>None\<close> of the source.
\<close>

definition load :: "env \<Rightarrow> string list list \<Rightarrow> frame option" where
  "load L all_values =
     (case tidy L all_values of
        None \<Rightarrow> None
      | Some df \<Rightarrow>
          let df' = filter_invalid df in
          if empty df' then None else Some df')"

text \<open>The whole function: without a connected sheet there is nothing to load.\<close>

definition get_expenses_dataframe :: "env \<Rightarrow> string list list option \<Rightarrow> frame option" where
  "get_expenses_dataframe L sheet =
     (case sheet of None \<Rightarrow> None | Some all_values \<Rightarrow> load L all_values)"

section \<open>Duplicate detection\<close>

text \<open>
  The new expense is a dictionary read with \<open>get\<close>: a missing \<open>total_amount\<close> reads as 0,
  a missing \<open>merchant\<close> as the empty string.
\<close>

record expense =
  total_amount :: "real option"
  merchant :: "string option"

text \<open>
  The dictionary \<open>duplicate_info\<close>. \<open>date\<close> is the cell that \<open>strftime\<close> formats, \<open>None\<close>
  for the text \<open>Unknown date\<close>.
\<close>

record duplicate_info =
  amount :: cell
  shown_merchant :: string
  date :: "cell option"
  reason :: string
  similarity :: int

text \<open>
  The message of a positive answer, by its parts: the new receipt, the best match, and
  the number of similar receipts when there is more than one.
\<close>

record message =
  new_receipt_amount :: real
  new_receipt_merchant :: string
  existing :: duplicate_info
  similar_count :: "nat option"

datatype evidence = Plain string | Possible_duplicate message

definition thirty_days :: int where
  "thirty_days = 30 * 24 * 60 * 60 * 1000000000"

text \<open>\<open>df['Date'] >= thirty_days_ago\<close> on one cell; a comparison with NaT is false.\<close>

fun on_or_after :: "int \<Rightarrow> cell \<Rightarrow> bool" where
  "on_or_after cutoff (Time (Some t)) = (cutoff \<le> t)"
| "on_or_after cutoff c = False"

definition tail :: "nat \<Rightarrow> 'a list \<Rightarrow> 'a list" where
  "tail n xs = drop (length xs - n) xs"

text \<open>Lines 284 to 292: the records the new expense is compared with.\<close>

definition recent_expenses :: "env \<Rightarrow> frame \<Rightarrow> (string \<Rightarrow> cell) list" where
  "recent_expenses L df =
     (if ''Date'' \<in> set (columns df)
      then filter (\<lambda>r. on_or_after (now L - thirty_days) (r ''Date'')) (rows df)
      else tail 20 (rows df))"

text \<open>
  The trailing 30-day window from now, as the specification words it: a date that is
  neither earlier than 30 days before now nor later than now.
\<close>

definition in_trailing_window :: "env \<Rightarrow> cell \<Rightarrow> bool" where
  "in_trailing_window L c =
     (case c of Time (Some t) \<Rightarrow> now L - thirty_days \<le> t \<and> t \<le> now L | _ \<Rightarrow> False)"

text \<open>
  \<open>abs(expense['Amount'] - new_amount)\<close>: \<open>None\<close> is NaN, which no comparison accepts.
\<close>

definition amount_diff :: "cell \<Rightarrow> real \<Rightarrow> real option" where
  "amount_diff c new_amount =
     (case c of Num (Some a) \<Rightarrow> Some \<bar>a - new_amount\<bar> | _ \<Rightarrow> None)"

definition diff_le :: "real option \<Rightarrow> real \<Rightarrow> bool" where
  "diff_le d bound = (case d of Some x \<Rightarrow> x \<le> bound | None \<Rightarrow> False)"

text \<open>
  Lines 321 to 335: the rules, in the order of the source; \<open>None\<close> is
  \<open>is_duplicate = False\<close>, \<open>Some reason\<close> is \<open>is_duplicate = True\<close> with its \<open>match_reason\<close>.
\<close>

definition match_reason :: "real option \<Rightarrow> int \<Rightarrow> string \<Rightarrow> string \<Rightarrow> string option" where
  "match_reason diff merchant_similarity new_merchant expense_merchant =
     (if diff = Some 0 \<and> 70 \<le> merchant_similarity
      then Some ''Exact amount + similar merchant''
      else if diff_le diff 2 \<and> 85 \<le> merchant_similarity
      then Some ''Very close amount + very similar merchant''
      else if diff = Some 0 \<and> (new_merchant = [] \<or> expense_merchant = [])
      then Some ''Exact amount (merchant info missing)''
      else None)"

text \<open>Lines 307 to 310: the merchant of a record, lower-cased and trimmed.\<close>

definition expense_merchant_of :: "env \<Rightarrow> frame \<Rightarrow> string option \<Rightarrow> (string \<Rightarrow> cell) \<Rightarrow> string" where
  "expense_merchant_of L df merchant_col expense =
     (case merchant_col of
        None \<Rightarrow> []
      | Some col \<Rightarrow>
          if col \<noteq> [] \<and> col \<in> set (columns df)
          then strip (lower (py_str L (expense col)))
          else [])"

text \<open>Lines 315 to 318.\<close>

definition merchant_similarity_of :: "env \<Rightarrow> string \<Rightarrow> string \<Rightarrow> int" where
  "merchant_similarity_of L new_merchant expense_merchant =
     (if new_merchant \<noteq> [] \<and> expense_merchant \<noteq> []
      then ratio L expense_merchant new_merchant
      else 0)"

text \<open>The body of the loop over the recent records: what it appends, if anything.\<close>

definition check_expense ::
  "env \<Rightarrow> frame \<Rightarrow> string option \<Rightarrow> real \<Rightarrow> string \<Rightarrow> (string \<Rightarrow> cell) \<Rightarrow> duplicate_info option" where
  "check_expense L df merchant_col new_amount new_merchant expense =
     (let diff = amount_diff (expense ''Amount'') new_amount;
          expense_merchant = expense_merchant_of L df merchant_col expense;
          merchant_similarity = merchant_similarity_of L new_merchant expense_merchant
      in case match_reason diff merchant_similarity new_merchant expense_merchant of
           None \<Rightarrow> None
         | Some match \<Rightarrow>
             Some \<lparr>amount = expense ''Amount'',
                   shown_merchant =
                     (if expense_merchant \<noteq> [] then expense_merchant else ''Unknown''),
                   date = (if ''Date'' \<in> set (columns df) then Some (expense ''Date'') else None),
                   reason = match,
                   similarity = merchant_similarity\<rparr>)"

text \<open>
  \<open>max(xs, key=...)\<close> on a non-empty list, \<open>best\<close> being the maximum so far: a later
  element replaces it only when its key is strictly greater.
\<close>

fun first_max :: "('a \<Rightarrow> int) \<Rightarrow> 'a \<Rightarrow> 'a list \<Rightarrow> 'a" where
  "first_max key best [] = best"
| "first_max key best (x # xs) = first_max key (if key best < key x then x else best) xs"

definition new_amount_of :: "expense \<Rightarrow> real" where
  "new_amount_of new_expense = (case total_amount new_expense of None \<Rightarrow> 0 | Some a \<Rightarrow> a)"

definition new_merchant_of :: "expense \<Rightarrow> string" where
  "new_merchant_of new_expense =
     strip (lower (case merchant new_expense of None \<Rightarrow> [] | Some m \<Rightarrow> m))"

definition duplicates_found :: "env \<Rightarrow> frame \<Rightarrow> expense \<Rightarrow> duplicate_info list" where
  "duplicates_found L df new_expense =
     List.map_filter
       (check_expense L df (find is_merchant_header (columns df))
          (new_amount_of new_expense) (new_merchant_of new_expense))
       (recent_expenses L df)"

text \<open>\<open>detect_duplicates\<close> from line 279 on, for a loaded frame.\<close>

definition check :: "env \<Rightarrow> frame \<Rightarrow> expense \<Rightarrow> bool \<times> evidence" where
  "check L df new_expense =
     (case duplicates_found L df new_expense of
        [] \<Rightarrow> (False, Plain ''No duplicates detected'')
      | d # ds \<Rightarrow>
          (True,
           Possible_duplicate
             \<lparr>new_receipt_amount = new_amount_of new_expense,
              new_receipt_merchant =
                (if new_merchant_of new_expense \<noteq> [] then new_merchant_of new_expense
                 else ''Unknown''),
              existing = first_max similarity d ds,
              similar_count = (if 1 < length (d # ds) then Some (length (d # ds)) else None)\<rparr>))"

definition detect_duplicates ::
  "env \<Rightarrow> string list list option \<Rightarrow> expense \<Rightarrow> bool \<times> evidence" where
  "detect_duplicates L sheet new_expense =
     (case get_expenses_dataframe L sheet of
        None \<Rightarrow> (False, Plain ''No duplicates found - first expense!'')
      | Some df \<Rightarrow>
          if empty df then (False, Plain ''No duplicates found - first expense!'')
          else if ''Amount'' \<notin> set (columns df)
          then (False, Plain ''Cannot check duplicates - missing amount data'')
          else check L df new_expense)"

section \<open>A sample environment\<close>

text \<open>
  Concrete library functions on which the model can be run: plain decimal numbers with
  an optional minus sign, ISO dates, and a similarity that tells equal strings from
  different ones. As in pandas, \<open>to_datetime\<close> reads a number as nanoseconds since the
  epoch.
\<close>

definition digit_val :: "char \<Rightarrow> nat option" where
  "digit_val c = map_of (zip ''0123456789'' [0, 1, 2, 3, 4, 5, 6, 7, 8, 9]) c"

fun digits_val :: "nat \<Rightarrow> string \<Rightarrow> nat option" where
  "digits_val acc [] = Some acc"
| "digits_val acc (c # cs) =
     (case digit_val c of None \<Rightarrow> None | Some d \<Rightarrow> digits_val (10 * acc + d) cs)"

definition parse_unsigned :: "string \<Rightarrow> real option" where
  "parse_unsigned s =
     (let whole = takeWhile (\<lambda>c. c \<noteq> CHR ''.'') s;
          frac = drop 1 (dropWhile (\<lambda>c. c \<noteq> CHR ''.'') s)
      in if whole = [] \<and> frac = [] then None
         else (case (digits_val 0 whole, digits_val 0 frac) of
                 (Some a, Some b) \<Rightarrow> Some (real a + real b / 10 ^ length frac)
               | _ \<Rightarrow> None))"

definition parse_decimal :: "string \<Rightarrow> real option" where
  "parse_decimal s =
     (if take 1 s = ''-'' then map_option uminus (parse_unsigned (drop 1 s))
      else parse_unsigned s)"

definition days_from_civil :: "int \<Rightarrow> int \<Rightarrow> int \<Rightarrow> int" where
  "days_from_civil y m d =
     (let y' = (if m \<le> 2 then y - 1 else y);
          era = y' div 400;
          yoe = y' - era * 400;
          doy = (153 * (if 2 < m then m - 3 else m + 9) + 2) div 5 + d - 1;
          doe = yoe * 365 + yoe div 4 - yoe div 100 + doy
      in era * 146097 + doe - 719468)"

definition nanos_per_day :: int where
  "nanos_per_day = 24 * 60 * 60 * 1000000000"

definition parse_iso_date :: "string \<Rightarrow> int option" where
  "parse_iso_date s =
     (if length s = 10 \<and> take 1 (drop 4 s) = ''-'' \<and> take 1 (drop 7 s) = ''-''
      then (case (digits_val 0 (take 4 s), digits_val 0 (take 2 (drop 5 s)),
                  digits_val 0 (drop 8 s)) of
              (Some y, Some m, Some d) \<Rightarrow>
                Some (days_from_civil (int y) (int m) (int d) * nanos_per_day)
            | _ \<Rightarrow> None)
      else None)"

definition sample_numeric :: "cell \<Rightarrow> real option" where
  "sample_numeric c = (case c of Str s \<Rightarrow> parse_decimal (strip s) | Num x \<Rightarrow> x | Time t \<Rightarrow> None)"

definition sample_datetime :: "cell \<Rightarrow> int option" where
  "sample_datetime c =
     (case c of Str s \<Rightarrow> parse_iso_date (strip s)
      | Num x \<Rightarrow> map_option floor x
      | Time t \<Rightarrow> t)"

definition sample_ratio :: "string \<Rightarrow> string \<Rightarrow> int" where
  "sample_ratio a b = (if a = b then 100 else 0)"

text \<open>The clock of the sample environment reads 2024-03-01.\<close>

definition sample_env :: env where
  "sample_env =
     \<lparr>to_numeric = (\<lambda>col. Some sample_numeric),
      to_datetime = (\<lambda>col. Some sample_datetime),
      fmt = (\<lambda>c. []),
      ratio = sample_ratio,
      now = 19783 * nanos_per_day\<rparr>"

section \<open>Example inputs\<close>

text \<open>A sheet whose header is its second row.\<close>

definition example_rows :: "string list list" where
  "example_rows =
     [[''foo'', ''bar''], [''Date'', ''Amount'', ''Category''],
      [''2024-01-01'', ''12.50'', ''Food'']]"

text \<open>A sheet without an amount header and without a number in any cell.\<close>

definition no_amount_rows :: "string list list" where
  "no_amount_rows = [[''Date'', ''Store'', ''Category''], [''2024-01-01'', ''Shop'', ''Food'']]"

text \<open>
  A sheet with a valid record, a record with a negative amount and a record whose date
  does not parse.
\<close>

definition mixed_rows :: "string list list" where
  "mixed_rows =
     [[''Date'', ''Amount'', ''Store''], [''2024-02-20'', ''10'', ''Shop''],
      [''2024-02-21'', ''-3'', ''Shop''], [''bad'', ''7'', ''Shop'']]"

text \<open>A sheet without a date header and without a date in any cell.\<close>

definition undated_rows :: "string list list" where
  "undated_rows = [[''Store'', ''Price'', ''Category''], [''Shop'', ''10'', ''Food'']]"

text \<open>
  A sheet whose first row has three cells and no keyword in any of them, while the
  end of its first cell and the start of its second spell \<open>amount\<close>.
\<close>

definition pizza_rows :: "string list list" where
  "pizza_rows = [[''Pizza'', ''Mountain Dew'', ''3.50''], [''2024-02-20'', ''Shop'', ''10'']]"

text \<open>A sheet without a header row, and a sheet whose only record has no valid amount.\<close>

definition headerless_rows :: "string list list" where
  "headerless_rows = [[''2024-02-20'', ''Shop'', ''10'']]"

definition invalid_rows :: "string list list" where
  "invalid_rows = [[''Date'', ''Amount'', ''Category''], [''2024-01-01'', ''-5'', ''Food'']]"

text \<open>A sheet whose amount carries the peso sign and a thousands separator.\<close>

definition peso_rows :: "string list list" where
  "peso_rows =
     [[''Date'', ''Amount'', ''Store''], [''2024-02-20'', peso @ ''1,234.50'', ''Shop'']]"

text \<open>
  Sheets for the duplicate check, read on 2024-03-01: a record dated four days later; a
  record ten days old, one 40 days old and one four days ahead; and three records of
  the same amount, two of them from the same shop.
\<close>

definition future_rows :: "string list list" where
  "future_rows = [[''Date'', ''Amount'', ''Store''], [''2024-03-05'', ''10'', ''Shop'']]"

definition window_rows :: "string list list" where
  "window_rows =
     [[''Date'', ''Amount'', ''Store''], [''2024-02-20'', ''10'', ''Shop''],
      [''2024-01-21'', ''10'', ''Shop''], [''2024-03-05'', ''10'', ''Shop'']]"

definition dup_rows :: "string list list" where
  "dup_rows =
     [[''Date'', ''Amount'', ''Store''], [''2024-02-20'', ''10'', ''Shop''],
      [''2024-02-21'', ''10'', ''Shop''], [''2024-02-22'', ''10'', ''Other'']]"

definition shop_receipt :: expense where
  "shop_receipt = \<lparr>total_amount = Some 10, merchant = Some '' SHOP''\<rparr>"

text \<open>A frame with a merchant column and a record of it, for the rules of the check.\<close>

definition store_frame :: frame where
  "store_frame = \<lparr>columns = [''Amount'', ''Store''], rows = []\<rparr>"

definition store_record :: "real \<Rightarrow> string \<Rightarrow> string \<Rightarrow> cell" where
  "store_record a m = (\<lambda>k. Num None)(''Amount'' := Num (Some a), ''Store'' := Str m)"

section \<open>Evaluation on concrete inputs\<close>

lemmas string_eval = lower_def lower_char_def strip_def is_space_def contains_def
  sublist_code row_text_def header_keywords_def

lemmas frame_eval = tidy_def find_amount_col_def clean_amount_def clean_amount_text_def peso_def
  clean_date_def is_date_header_def copy_category_def copy_merchant_def
  is_merchant_header_def normalize_def filter_invalid_def select_def empty_def
  assign_def column_def py_str_def row_of_dict_def has_numeric_def

lemmas sample_eval = sample_env_def sample_numeric_def sample_datetime_def parse_decimal_def
  parse_unsigned_def
  parse_iso_date_def digit_val_def days_from_civil_def nanos_per_day_def sample_ratio_def

lemma sample_numeric_12_50: "sample_numeric (Str ''12.50'') = Some 12.5"
  by (simp add: sample_eval strip_def is_space_def)

lemma sample_datetime_2024_01_01:
  "sample_datetime (Str ''2024-01-01'') = Some 1704067200000000000"
  by (simp add: sample_eval strip_def is_space_def)

section \<open>Properties of header discovery\<close>

lemma find_header_None_iff:
  "find_header i rs = None \<longleftrightarrow> (\<forall>row \<in> set rs. \<not> is_header_row row)"
  by (induction rs arbitrary: i) auto

lemma find_header_Some:
  "find_header i rs = Some k \<Longrightarrow>
     i \<le> k \<and> k - i < length rs \<and> is_header_row (rs ! (k - i))
     \<and> (\<forall>j < k - i. \<not> is_header_row (rs ! j))"
proof (induction rs arbitrary: i)
  case Nil
  then show ?case by simp
next
  case (Cons row rest)
  show ?case
  proof (cases "is_header_row row")
    case True
    with Cons.prems show ?thesis by simp
  next
    case False
    with Cons.prems have rec: "find_header (Suc i) rest = Some k" by simp
    from Cons.IH [OF rec] have ik: "Suc i \<le> k" and len: "k - Suc i < length rest"
      and hd: "is_header_row (rest ! (k - Suc i))"
      and before: "\<forall>j < k - Suc i. \<not> is_header_row (rest ! j)" by auto
    from ik have split: "k - i = Suc (k - Suc i)" by simp
    have "\<forall>j < k - i. \<not> is_header_row ((row # rest) ! j)"
    proof (intro allI impI)
      fix j assume "j < k - i"
      then show "\<not> is_header_row ((row # rest) ! j)"
        using False before split by (cases j) auto
    qed
    with ik len hd split show ?thesis by simp
  qed
qed

lemma find_header_first:
  "k < length rs \<Longrightarrow> is_header_row (rs ! k) \<Longrightarrow> \<forall>j < k. \<not> is_header_row (rs ! j) \<Longrightarrow>
     find_header i rs = Some (i + k)"
proof (induction rs arbitrary: i k)
  case Nil
  then show ?case by simp
next
  case (Cons row rest)
  show ?case
  proof (cases k)
    case 0
    with Cons.prems show ?thesis by simp
  next
    case (Suc k')
    from Cons.prems Suc have "\<not> is_header_row row" by auto
    moreover have "find_header (Suc i) rest = Some (Suc i + k')"
      using Cons.prems Suc by (intro Cons.IH) auto
    ultimately show ?thesis using Suc by simp
  qed
qed

lemma find_header_0_iff:
  "find_header 0 rs = Some i \<longleftrightarrow>
     i < length rs \<and> is_header_row (rs ! i) \<and> (\<forall>j < i. \<not> is_header_row (rs ! j))"
  using find_header_Some [of 0 rs i] find_header_first [of i rs 0] by auto

lemma example_not_header: "\<not> is_header_row [''foo'', ''bar'']"
  by (simp add: is_header_row_def)

lemma example_header: "is_header_row [''Date'', ''Amount'', ''Category'']"
  by (simp add: is_header_row_def string_eval)

lemma example_find: "find_header 0 example_rows = Some 1"
  by (simp add: example_rows_def example_not_header example_header)

lemma example_assemble:
  "assemble example_rows =
     Some \<lparr>columns = [''Date'', ''Amount'', ''Category''],
           rows = [row_of_dict [(''Date'', ''2024-01-01''), (''Amount'', ''12.50''), (''Category'', ''Food'')]]\<rparr>"
  unfolding assemble_def split_header_def example_find
  by (simp add: example_rows_def build_frame_def has_data_def strip_def is_space_def
      make_record_def enumerate_eq_zip DataFrame_def upt_rec)

lemma example_load:
  assumes num: "to_numeric L [Str ''12.50''] = Some f" and f: "f (Str ''12.50'') = Some 12.5"
    and dt: "to_datetime L [Str ''2024-01-01''] = Some g" and g: "g (Str ''2024-01-01'') \<noteq> None"
  shows "\<exists>df r. load L example_rows = Some df \<and> rows df = [r]
           \<and> r ''Amount'' = Num (Some 12.5) \<and> r ''Category'' = Str ''Food''"
  unfolding load_def tidy_def example_assemble
  using g by (simp add: frame_eval string_eval num f dt)

lemma assemble_header:
  assumes "find_header 0 all_values = Some i"
  shows "assemble all_values =
           (if i + 1 < length all_values
            then build_frame (all_values ! i) (drop (i + 1) all_values) else None)"
proof -
  from assms have "all_values \<noteq> []" by (cases all_values) auto
  with assms show ?thesis by (simp add: assemble_def split_header_def)
qed

lemma pizza_not_header: "\<not> is_header_row [''Pizza'', ''Mountain Dew'', ''3.50'']"
  by (simp add: is_header_row_def string_eval)

lemma pizza_find: "find_header 0 pizza_rows = None"
  by (simp add: pizza_rows_def pizza_not_header is_header_row_def string_eval)

text \<open>
  The cells of a row are not concatenated: the source joins them with single spaces.
  The row \<open>Pizza, Mountain Dew, 3.50\<close> has three cells and its concatenated lower-cased
  text contains \<open>amount\<close>, yet it is no header row, and the sheet that starts with it
  gets the canonical headers.
\<close>

theorem concatenation_counterexample:
  "header_by_concatenation [''Pizza'', ''Mountain Dew'', ''3.50'']
   \<and> \<not> is_header_row [''Pizza'', ''Mountain Dew'', ''3.50'']
   \<and> find_header 0 pizza_rows = None
   \<and> split_header pizza_rows = (default_headers, 0)"
proof -
  have "header_by_concatenation [''Pizza'', ''Mountain Dew'', ''3.50'']"
    by (simp add: header_by_concatenation_def string_eval)
  with pizza_not_header pizza_find show ?thesis
    by (simp add: split_header_def)
qed

text \<open>
  Claim C4, amended. A row is a header row exactly when it has at least three cells and
  the text made of its lower-cased cells, joined by single spaces, contains one of the
  tokens \<open>date\<close>, \<open>amount\<close>, \<open>store\<close>, \<open>merchant\<close>, \<open>category\<close>. The header is the first
  such row, scanning from the top, and the rows after it are the data rows. For the
  sheet \<open>example_rows\<close>, whenever the library reads \<open>12.50\<close> as 12.5 and parses the
  date, the load gives exactly one record, with amount 12.5 and category \<open>Food\<close>.
\<close>

theorem header_discovery:
  "(is_header_row row \<longleftrightarrow>
      3 \<le> length row
      \<and> (\<exists>token \<in> {''date'', ''amount'', ''store'', ''merchant'', ''category''}.
            sublist token (join '' '' (map lower row))))
   \<and> (find_header 0 all_values = Some i \<longleftrightarrow>
      i < length all_values \<and> is_header_row (all_values ! i)
      \<and> (\<forall>j < i. \<not> is_header_row (all_values ! j)))
   \<and> (find_header 0 all_values = Some i \<longrightarrow>
        assemble all_values =
          (if i + 1 < length all_values
           then build_frame (all_values ! i) (drop (i + 1) all_values) else None))
   \<and> (to_numeric L [Str ''12.50''] = Some f \<and> f (Str ''12.50'') = Some 12.5
        \<and> to_datetime L [Str ''2024-01-01''] = Some g \<and> g (Str ''2024-01-01'') \<noteq> None \<longrightarrow>
        (\<exists>df r. load L example_rows = Some df \<and> rows df = [r]
           \<and> r ''Amount'' = Num (Some 12.5) \<and> r ''Category'' = Str ''Food''))"
proof -
  have "is_header_row row \<longleftrightarrow>
      3 \<le> length row
      \<and> (\<exists>token \<in> {''date'', ''amount'', ''store'', ''merchant'', ''category''}.
            sublist token (join '' '' (map lower row)))"
    by (simp add: is_header_row_def header_keywords_def row_text_def contains_def)
  with find_header_0_iff [of all_values i] assemble_header [of all_values i]
    example_load [of L f g]
  show ?thesis by blast
qed

text \<open>
  The sample environment on \<open>example_rows\<close>: a row of two cells and a row of three cells
  without a token are no header rows, a row with a token in capitals is one, and the
  header is found at index 1.
\<close>

theorem header_discovery_witness:
  "\<not> is_header_row [''foo'', ''bar'']
   \<and> \<not> is_header_row [''foo'', ''bar'', ''baz'']
   \<and> is_header_row [''Date'', ''Amount'', ''Category'']
   \<and> find_header 0 example_rows = Some 1
   \<and> assemble example_rows =
       build_frame [''Date'', ''Amount'', ''Category''] [[''2024-01-01'', ''12.50'', ''Food'']]
   \<and> (\<exists>df r. load sample_env example_rows = Some df \<and> rows df = [r]
         \<and> r ''Amount'' = Num (Some 12.5) \<and> r ''Category'' = Str ''Food'')"
proof -
  have lib: "to_numeric sample_env [Str ''12.50''] = Some sample_numeric"
    "to_datetime sample_env [Str ''2024-01-01''] = Some sample_datetime"
    by (simp_all add: sample_env_def)
  have dt: "sample_datetime (Str ''2024-01-01'') \<noteq> None"
    by (simp add: sample_datetime_2024_01_01)
  have shape: "length example_rows = 3" "example_rows ! 1 = [''Date'', ''Amount'', ''Category'']"
    "drop (Suc (Suc 0)) example_rows = [[''2024-01-01'', ''12.50'', ''Food'']]"
    by (simp_all add: example_rows_def)
  have rows: "\<not> is_header_row [''foo'', ''bar'']"
    "\<not> is_header_row [''foo'', ''bar'', ''baz'']"
    "is_header_row [''Date'', ''Amount'', ''Category'']"
    using header_discovery [of "[''foo'', ''bar'']"]
      header_discovery [of "[''foo'', ''bar'', ''baz'']"]
      header_discovery [of "[''Date'', ''Amount'', ''Category'']"]
    by (simp_all add: lower_def lower_char_def sublist_code)
  from header_discovery [of _ example_rows 1 sample_env sample_numeric sample_datetime]
  have "assemble example_rows =
       build_frame [''Date'', ''Amount'', ''Category''] [[''2024-01-01'', ''12.50'', ''Food'']]
   \<and> (\<exists>df r. load sample_env example_rows = Some df \<and> rows df = [r]
         \<and> r ''Amount'' = Num (Some 12.5) \<and> r ''Category'' = Str ''Food'')"
    using example_find lib sample_numeric_12_50 dt shape by simp
  with rows example_find show ?thesis by simp
qed

section \<open>Properties of the frame operations and of the stages\<close>

lemma columns_assign:
  "columns (assign df name f) =
     (if name \<in> set (columns df) then columns df else columns df @ [name])"
  by (simp add: assign_def)

lemma set_columns_assign: "set (columns (assign df name f)) = insert name (set (columns df))"
  by (auto simp: assign_def)

lemma rows_assign: "rows (assign df name f) = map (\<lambda>r. r(name := f r)) (rows df)"
  by (simp add: assign_def)

lemma positive_iff: "positive c \<longleftrightarrow> (\<exists>a. c = Num (Some a) \<and> 0 < a)"
  by (cases c rule: positive.cases) auto

lemma positive_notna: "positive c \<Longrightarrow> notna c"
  by (auto simp: positive_iff)

lemma columns_filter_invalid: "columns (filter_invalid df) = columns df"
  by (simp add: filter_invalid_def select_def Let_def)

lemma rows_filter_invalid:
  "rows (filter_invalid df) =
     filter (\<lambda>r. positive (r ''Amount'')
                \<and> (''Date'' \<in> set (columns df) \<longrightarrow> notna (r ''Date''))) (rows df)"
proof -
  have "filter (\<lambda>r. positive (r ''Amount'')) (filter (\<lambda>r. notna (r ''Amount'')) (rows df))
          = filter (\<lambda>r. positive (r ''Amount'')) (rows df)"
    by (auto simp: positive_notna intro: filter_cong)
  then show ?thesis
    by (auto simp: filter_invalid_def select_def Let_def intro: filter_cong)
qed

lemma load_Some:
  "load L all_values = Some df \<longleftrightarrow>
     (\<exists>df1. tidy L all_values = Some df1 \<and> df = filter_invalid df1 \<and> \<not> empty (filter_invalid df1))"
  by (auto simp: load_def Let_def split: option.splits)

lemma is_date_header_nonempty: "is_date_header col \<Longrightarrow> col \<noteq> []"
  by (auto simp: is_date_header_def contains_def lower_def)

lemma is_date_header_Date: "is_date_header ''Date''"
  by (simp add: is_date_header_def string_eval)

lemma date_fallback_cases:
  "(\<not> (\<exists>col \<in> set cols. date_like L df col) \<and> date_fallback L df cols = df)
   \<or> ((\<exists>col \<in> set cols. date_like L df col)
       \<and> (\<exists>col g. date_fallback L df cols = assign df ''Date'' (\<lambda>r. Time (g (r col)))))"
proof (induction cols)
  case Nil
  then show ?case by simp
next
  case (Cons col cols)
  then show ?case
    by (cases "to_datetime L (column df col)") (auto simp: date_like_def)
qed

lemma clean_date_cases:
  assumes "clean_date L df = Some df2"
  shows "(\<not> date_role L df \<and> df2 = df \<and> ''Date'' \<notin> set (columns df))
         \<or> (date_role L df \<and> (\<exists>col g. df2 = assign df ''Date'' (\<lambda>r. Time (g (r col)))))"
proof (cases "find is_date_header (columns df)")
  case None
  then have nodate: "''Date'' \<notin> set (columns df)"
    using is_date_header_Date by (auto simp: find_None_iff)
  from None assms have df2: "df2 = date_fallback L df (columns df)"
    by (simp add: clean_date_def)
  from None have role: "date_role L df \<longleftrightarrow> (\<exists>col \<in> set (columns df). date_like L df col)"
    by (simp add: date_role_def)
  from date_fallback_cases [of "columns df" L df] show ?thesis
    using df2 role nodate by auto
next
  case (Some col)
  then have "is_date_header col" by (auto simp: find_Some_iff)
  then have ne: "col \<noteq> []" by (rule is_date_header_nonempty)
  with Some have role: "date_role L df" by (simp add: date_role_def)
  from Some ne assms obtain g where "df2 = assign df ''Date'' (\<lambda>r. Time (g (r col)))"
    by (auto simp: clean_date_def split: option.splits)
  with role show ?thesis by blast
qed

lemma copy_category_cases:
  "copy_category df = df \<or> (\<exists>col. copy_category df = assign df ''Category'' (\<lambda>r. r col))"
  by (auto simp: copy_category_def split: option.splits)

lemma copy_merchant_cases:
  "copy_merchant df = df \<or> (\<exists>col. copy_merchant df = assign df ''Store/Merchant'' (\<lambda>r. r col))"
  by (auto simp: copy_merchant_def split: option.splits)

lemma copies_keep_Date:
  "(''Date'' \<in> set (columns (copy_merchant (copy_category df))) \<longleftrightarrow> ''Date'' \<in> set (columns df))
   \<and> (\<forall>r' \<in> set (rows (copy_merchant (copy_category df))).
         \<exists>r \<in> set (rows df). r' ''Date'' = r ''Date'')"
proof -
  have keep: "\<forall>r' \<in> set (rows (assign d name f)). \<exists>r \<in> set (rows d). r' ''Date'' = r ''Date''"
    if "name \<noteq> ''Date''" for d name f
    using that by (simp add: rows_assign) blast
  have cat: "(''Date'' \<in> set (columns (copy_category df)) \<longleftrightarrow> ''Date'' \<in> set (columns df))
      \<and> (\<forall>r' \<in> set (rows (copy_category df)). \<exists>r \<in> set (rows df). r' ''Date'' = r ''Date'')"
    using copy_category_cases [of df] keep [of "''Category''" df]
    by (auto simp: set_columns_assign)
  have mer: "(''Date'' \<in> set (columns (copy_merchant d)) \<longleftrightarrow> ''Date'' \<in> set (columns d))
      \<and> (\<forall>r' \<in> set (rows (copy_merchant d)). \<exists>r \<in> set (rows d). r' ''Date'' = r ''Date'')"
    for d
    using copy_merchant_cases [of d] keep [of "''Store/Merchant''" d]
    by (auto simp: set_columns_assign)
  from cat mer [of "copy_category df"] show ?thesis by metis
qed

lemma copies_keep_Amount:
  "\<forall>r' \<in> set (rows (copy_merchant (copy_category df))).
      \<exists>r \<in> set (rows df). r' ''Amount'' = r ''Amount''"
proof -
  have keep: "\<forall>r' \<in> set (rows (assign d name f)). \<exists>r \<in> set (rows d). r' ''Amount'' = r ''Amount''"
    if "name \<noteq> ''Amount''" for d name f
    using that by (simp add: rows_assign) blast
  have cat: "\<forall>r' \<in> set (rows (copy_category df)). \<exists>r \<in> set (rows df). r' ''Amount'' = r ''Amount''"
    using copy_category_cases [of df] keep [of "''Category''" df] by auto
  have mer: "\<forall>r' \<in> set (rows (copy_merchant d)). \<exists>r \<in> set (rows d). r' ''Amount'' = r ''Amount''"
    for d
    using copy_merchant_cases [of d] keep [of "''Store/Merchant''" d] by auto
  from cat mer [of "copy_category df"] show ?thesis by metis
qed

lemma clean_amount_column:
  assumes "clean_amount L df = Some df'"
  shows "''Amount'' \<in> set (columns df') \<and> (\<forall>r \<in> set (rows df'). \<exists>x. r ''Amount'' = Num x)"
  using assms
  by (auto simp: clean_amount_def Let_def set_columns_assign rows_assign
      split: option.splits if_splits)

lemma normalize_Some:
  "normalize L df0 = Some df1 \<longleftrightarrow>
     (\<exists>dfa df2. clean_amount L df0 = Some dfa \<and> clean_date L dfa = Some df2
        \<and> df1 = copy_merchant (copy_category df2))"
  by (auto simp: normalize_def split: option.splits)

lemma normalize_date:
  assumes norm: "normalize L df0 = Some df1" and amt: "clean_amount L df0 = Some dfa"
  shows "(''Date'' \<in> set (columns df1) \<longleftrightarrow> date_role L dfa)
         \<and> (date_role L dfa \<longrightarrow> (\<forall>r \<in> set (rows df1). \<exists>t. r ''Date'' = Time t))"
proof -
  from norm amt obtain df2 where cd: "clean_date L dfa = Some df2"
    and df1: "df1 = copy_merchant (copy_category df2)"
    by (auto simp: normalize_Some)
  from clean_date_cases [OF cd] show ?thesis
  proof (elim disjE conjE exE)
    assume "\<not> date_role L dfa" "df2 = dfa" "''Date'' \<notin> set (columns dfa)"
    then show ?thesis using copies_keep_Date [of dfa] df1 by simp
  next
    fix col g
    assume role: "date_role L dfa" and a: "df2 = assign dfa ''Date'' (\<lambda>r. Time (g (r col)))"
    have "''Date'' \<in> set (columns df2)" by (simp add: a set_columns_assign)
    moreover have "\<forall>r \<in> set (rows df2). \<exists>t. r ''Date'' = Time t"
      by (auto simp: a rows_assign)
    ultimately show ?thesis using copies_keep_Date [of df2] df1 role by fastforce
  qed
qed

lemma find_amount_col_None:
  assumes "\<forall>col \<in> set (columns df). \<not> contains (lower col) ''amount''"
    and "\<forall>col \<in> set (columns df). \<not> has_numeric L df col"
  shows "find_amount_col L df = None"
proof -
  from assms(1) have "find (\<lambda>col. contains (lower col) ''amount'') (columns df) = None"
    by (simp add: find_None_iff)
  moreover from assms(2) have "find (has_numeric L df) (columns df) = None"
    by (simp add: find_None_iff)
  ultimately show ?thesis by (simp add: find_amount_col_def)
qed

lemma load_None_without_amount:
  assumes "assemble all_values = Some df0" and "find_amount_col L df0 = None"
  shows "load L all_values = None"
  using assms by (simp add: load_def tidy_def normalize_def clean_amount_def)

section \<open>The example sheets, evaluated\<close>

lemmas assemble_eval = assemble_def split_header_def build_frame_def has_data_def strip_def
  is_space_def make_record_def enumerate_eq_zip DataFrame_def upt_rec is_header_row_def
  row_text_def header_keywords_def lower_def lower_char_def contains_def sublist_code

lemma no_amount_assemble:
  "assemble no_amount_rows =
     Some \<lparr>columns = [''Date'', ''Store'', ''Category''],
           rows = [row_of_dict [(''Date'', ''2024-01-01''), (''Store'', ''Shop''), (''Category'', ''Food'')]]\<rparr>"
  by (simp add: no_amount_rows_def assemble_eval)

lemma mixed_assemble:
  "assemble mixed_rows =
     Some \<lparr>columns = [''Date'', ''Amount'', ''Store''],
           rows = [row_of_dict [(''Date'', ''2024-02-20''), (''Amount'', ''10''), (''Store'', ''Shop'')],
                   row_of_dict [(''Date'', ''2024-02-21''), (''Amount'', ''-3''), (''Store'', ''Shop'')],
                   row_of_dict [(''Date'', ''bad''), (''Amount'', ''7''), (''Store'', ''Shop'')]]\<rparr>"
  by (simp add: mixed_rows_def assemble_eval)

lemma mixed_load:
  "\<exists>df r. load sample_env mixed_rows = Some df \<and> rows df = [r]
     \<and> r ''Amount'' = Num (Some 10) \<and> r ''Date'' = Time (Some 1708387200000000000)
     \<and> ''Date'' \<in> set (columns df)"
  unfolding load_def tidy_def mixed_assemble
  by (simp add: frame_eval string_eval sample_eval)

lemma undated_assemble:
  "assemble undated_rows =
     Some \<lparr>columns = [''Store'', ''Price'', ''Category''],
           rows = [row_of_dict [(''Store'', ''Shop''), (''Price'', ''10''), (''Category'', ''Food'')]]\<rparr>"
  by (simp add: undated_rows_def assemble_eval)

lemma undated_load:
  "\<exists>df r. load sample_env undated_rows = Some df \<and> rows df = [r]
     \<and> r ''Amount'' = Num (Some 10) \<and> r ''Date'' = Time (Some 10)"
  unfolding load_def tidy_def undated_assemble
  by (simp add: frame_eval string_eval sample_eval)

lemma invalid_assemble:
  "assemble invalid_rows =
     Some \<lparr>columns = [''Date'', ''Amount'', ''Category''],
           rows = [row_of_dict [(''Date'', ''2024-01-01''), (''Amount'', ''-5''), (''Category'', ''Food'')]]\<rparr>"
  by (simp add: invalid_rows_def assemble_eval)

lemma invalid_tidy:
  "\<exists>df1. tidy sample_env invalid_rows = Some df1 \<and> rows (filter_invalid df1) = []"
  unfolding tidy_def invalid_assemble
  by (simp add: frame_eval string_eval sample_eval)

lemma headerless_not_header: "\<forall>row \<in> set headerless_rows. \<not> is_header_row row"
  by (simp add: headerless_rows_def assemble_eval)

lemma sample_example_load:
  "\<exists>df r. load sample_env example_rows = Some df \<and> rows df = [r]"
proof -
  have "to_numeric sample_env [Str ''12.50''] = Some sample_numeric"
    "to_datetime sample_env [Str ''2024-01-01''] = Some sample_datetime"
    by (simp_all add: sample_env_def)
  moreover have "sample_datetime (Str ''2024-01-01'') \<noteq> None"
    by (simp add: sample_datetime_2024_01_01)
  ultimately show ?thesis
    using example_load [of sample_env sample_numeric sample_datetime] sample_numeric_12_50
    by blast
qed

lemma load_stages:
  assumes "load L all_values = Some df"
  shows "\<exists>df0 dfa. assemble all_values = Some df0 \<and> clean_amount L df0 = Some dfa"
  using assms by (auto simp: load_Some tidy_def normalize_Some split: option.splits)

section \<open>The loader\<close>

text \<open>
  Claim C2. When the assembled table has no column whose lower-cased name contains
  \<open>amount\<close> and no column with a value that \<open>to_numeric\<close> coerces to a number, the load
  fails: it returns \<open>None\<close> and no record set.
\<close>

theorem no_amount_column_fails:
  assumes "\<forall>df0. assemble all_values = Some df0 \<longrightarrow>
             (\<forall>col \<in> set (columns df0). \<not> contains (lower col) ''amount'')
             \<and> (\<forall>col \<in> set (columns df0). \<not> has_numeric L df0 col)"
  shows "load L all_values = None"
proof (cases "assemble all_values")
  case None
  then show ?thesis by (simp add: load_def tidy_def)
next
  case (Some df0)
  with assms have "find_amount_col L df0 = None"
    by (intro find_amount_col_None) auto
  with Some show ?thesis by (rule load_None_without_amount)
qed

text \<open>A sheet of dates and words only is assembled, and its load fails.\<close>

theorem no_amount_column_fails_witness:
  "assemble no_amount_rows \<noteq> None \<and> load sample_env no_amount_rows = None"
proof -
  have "\<forall>df0. assemble no_amount_rows = Some df0 \<longrightarrow>
          (\<forall>col \<in> set (columns df0). \<not> contains (lower col) ''amount'')
          \<and> (\<forall>col \<in> set (columns df0). \<not> has_numeric sample_env df0 col)"
    by (simp add: no_amount_assemble has_numeric_def column_def row_of_dict_def string_eval
        sample_eval)
  then have "load sample_env no_amount_rows = None"
    by (rule no_amount_column_fails)
  then show ?thesis by (simp add: no_amount_assemble)
qed

text \<open>
  Claim C3. Every record of a successful load has an amount greater than zero: the
  records of the normalized table whose amount is missing (NaN) or not positive are
  not among the records returned.
\<close>

theorem amount_positive:
  assumes "load L all_values = Some df"
  shows "(\<forall>r \<in> set (rows df). \<exists>a. r ''Amount'' = Num (Some a) \<and> 0 < a)
         \<and> (\<exists>df1. tidy L all_values = Some df1 \<and> set (rows df) \<subseteq> set (rows df1)
              \<and> (\<forall>r \<in> set (rows df1).
                   r ''Amount'' = Num None \<or> (\<exists>a. r ''Amount'' = Num (Some a) \<and> a \<le> 0) \<longrightarrow>
                   r \<notin> set (rows df)))"
proof -
  from assms obtain df1 where t: "tidy L all_values = Some df1" and df: "df = filter_invalid df1"
    by (auto simp: load_Some)
  have pos: "\<forall>r \<in> set (rows df). positive (r ''Amount'')"
    by (simp add: df rows_filter_invalid)
  then have "\<forall>r \<in> set (rows df). \<exists>a. r ''Amount'' = Num (Some a) \<and> 0 < a"
    by (simp add: positive_iff)
  moreover have "set (rows df) \<subseteq> set (rows df1)"
    by (auto simp: df rows_filter_invalid)
  moreover have "\<forall>r \<in> set (rows df1).
      r ''Amount'' = Num None \<or> (\<exists>a. r ''Amount'' = Num (Some a) \<and> a \<le> 0) \<longrightarrow> r \<notin> set (rows df)"
    using pos by (fastforce simp: positive_iff)
  ultimately show ?thesis using t by blast
qed

text \<open>Of three records, the one with a positive amount and a date is returned.\<close>

theorem amount_positive_witness:
  "\<exists>df r a. load sample_env mixed_rows = Some df \<and> rows df = [r]
     \<and> r ''Amount'' = Num (Some a) \<and> 0 < a"
proof -
  from mixed_load obtain df r where ld: "load sample_env mixed_rows = Some df"
    and rs: "rows df = [r]" by blast
  from amount_positive [OF ld] rs obtain a where "r ''Amount'' = Num (Some a)" "0 < a"
    by auto
  with ld rs show ?thesis by blast
qed

text \<open>
  Claim C5. The source provides for a table without dates: the column \<open>Date\<close> is set
  only when a date column is found, and the records are filtered by date only when the
  column is there. But the fallback parse of lines 131 to 137 also tries the numeric
  column \<open>Amount\<close> that line 112 has just written. So whenever \<open>to_datetime\<close> reads the
  numbers of a numeric column as timestamps, as pandas does, every table that loads has
  the column \<open>Date\<close> and every record of it carries a timestamp, also a table without
  any date: no record is kept dateless.
\<close>

theorem dateless_never_kept:
  assumes lib: "\<forall>cells. (\<forall>c \<in> set cells. \<exists>x. c = Num x) \<longrightarrow>
                  (\<exists>g. to_datetime L cells = Some g \<and> (\<forall>a. g (Num (Some a)) \<noteq> None))"
    and ld: "load L all_values = Some df"
  shows "''Date'' \<in> set (columns df) \<and> (\<forall>r \<in> set (rows df). \<exists>t. r ''Date'' = Time (Some t))"
proof -
  from ld obtain df1 where t: "tidy L all_values = Some df1" and df: "df = filter_invalid df1"
    and ne: "\<not> empty (filter_invalid df1)"
    by (auto simp: load_Some)
  from load_stages [OF ld] obtain df0 dfa where asm: "assemble all_values = Some df0"
    and amt: "clean_amount L df0 = Some dfa" by blast
  from t asm have norm: "normalize L df0 = Some df1" by (simp add: tidy_def)
  from norm amt obtain df2 where cd: "clean_date L dfa = Some df2"
    and df1: "df1 = copy_merchant (copy_category df2)"
    by (auto simp: normalize_Some)
  have role: "date_role L dfa"
  proof (rule ccontr)
    assume no: "\<not> date_role L dfa"
    with clean_date_cases [OF cd] have same: "df2 = dfa" by auto
    from ne obtain r where r: "r \<in> set (rows df)"
      by (cases "rows df") (auto simp: empty_def df)
    then have pos: "positive (r ''Amount'')" and r1: "r \<in> set (rows df1)"
      by (auto simp: df rows_filter_invalid)
    from r1 copies_keep_Amount [of dfa] obtain r0 where r0: "r0 \<in> set (rows dfa)"
      and eq: "r ''Amount'' = r0 ''Amount''"
      unfolding df1 same by blast
    from pos eq obtain a where a: "r0 ''Amount'' = Num (Some a)"
      by (auto simp: positive_iff)
    from clean_amount_column [OF amt] have col: "''Amount'' \<in> set (columns dfa)"
      and num: "\<forall>c \<in> set (column dfa ''Amount''). \<exists>x. c = Num x"
      by (auto simp: column_def)
    from lib num obtain g where g: "to_datetime L (column dfa ''Amount'') = Some g"
      and read: "\<forall>a. g (Num (Some a)) \<noteq> None" by blast
    from r0 have "r0 ''Amount'' \<in> set (column dfa ''Amount'')"
      by (simp add: column_def)
    with a have mem: "Num (Some a) \<in> set (column dfa ''Amount'')" by simp
    from read have "g (Num (Some a)) \<noteq> None" by simp
    with mem have "\<exists>v \<in> set (column dfa ''Amount''). g v \<noteq> None" by blast
    with g have "date_like L dfa ''Amount''"
      by (simp add: date_like_def)
    with col have "date_role L dfa" by (auto simp: date_role_def)
    with no show False ..
  qed
  with normalize_date [OF norm amt] have col: "''Date'' \<in> set (columns df1)"
    and tm: "\<forall>r \<in> set (rows df1). \<exists>t. r ''Date'' = Time t" by auto
  have "\<forall>r \<in> set (rows df). \<exists>t. r ''Date'' = Time (Some t)"
  proof
    fix r assume "r \<in> set (rows df)"
    then have "r \<in> set (rows df1)" and na: "notna (r ''Date'')"
      by (auto simp: df rows_filter_invalid col)
    with tm obtain t where "r ''Date'' = Time t" by auto
    with na show "\<exists>t. r ''Date'' = Time (Some t)" by auto
  qed
  with col show ?thesis by (simp add: df columns_filter_invalid)
qed

text \<open>
  The sheet \<open>undated_rows\<close> has no date header and no cell that reads as a date. Its
  record is loaded with the amount 10 and with the timestamp 10, ten nanoseconds
  after the epoch.
\<close>

theorem dateless_never_kept_witness:
  "find is_date_header [''Store'', ''Price'', ''Category''] = None
   \<and> sample_datetime (Str ''Shop'') = None \<and> sample_datetime (Str ''10'') = None
   \<and> sample_datetime (Str ''Food'') = None
   \<and> (\<exists>df r. load sample_env undated_rows = Some df \<and> ''Date'' \<in> set (columns df)
         \<and> rows df = [r] \<and> r ''Amount'' = Num (Some 10) \<and> r ''Date'' = Time (Some 10))"
proof -
  have lib: "\<forall>cells. (\<forall>c \<in> set cells. \<exists>x. c = Num x) \<longrightarrow>
      (\<exists>g. to_datetime sample_env cells = Some g \<and> (\<forall>a. g (Num (Some a)) \<noteq> None))"
    by (simp add: sample_env_def sample_datetime_def)
  from undated_load obtain df r where ld: "load sample_env undated_rows = Some df"
    and rs: "rows df = [r]" and a: "r ''Amount'' = Num (Some 10)"
    and d: "r ''Date'' = Time (Some 10)" by blast
  from dateless_never_kept [OF lib ld] have "''Date'' \<in> set (columns df)" by simp
  with ld rs a d have "\<exists>df r. load sample_env undated_rows = Some df \<and> ''Date'' \<in> set (columns df)
         \<and> rows df = [r] \<and> r ''Amount'' = Num (Some 10) \<and> r ''Date'' = Time (Some 10)"
    by blast
  moreover have "find is_date_header [''Store'', ''Price'', ''Category''] = None"
    by (simp add: is_date_header_def string_eval)
  moreover have "sample_datetime (Str ''Shop'') = None" "sample_datetime (Str ''10'') = None"
    "sample_datetime (Str ''Food'') = None"
    by (simp_all add: sample_eval strip_def is_space_def)
  ultimately show ?thesis by simp
qed

text \<open>
  Claim C9. When no row of the input is a header row, the headers are the fixed list
  \<open>Date, Store/Merchant, Amount, Category, Payment Method, Notes, Receipt Date,
  Added Date\<close> and every input row, the first included, is a data row.
\<close>

theorem default_headers_fallback:
  assumes "\<forall>row \<in> set all_values. \<not> is_header_row row"
  shows "split_header all_values =
           ([''Date'', ''Store/Merchant'', ''Amount'', ''Category'', ''Payment Method'',
             ''Notes'', ''Receipt Date'', ''Added Date''], 0)
         \<and> assemble all_values =
             (if all_values = [] then None else build_frame default_headers all_values)"
proof -
  from assms have "find_header 0 all_values = None" by (simp add: find_header_None_iff)
  then show ?thesis by (simp add: split_header_def assemble_def default_headers_def)
qed

text \<open>A sheet of one row without any keyword.\<close>

theorem default_headers_fallback_witness:
  "split_header headerless_rows =
     ([''Date'', ''Store/Merchant'', ''Amount'', ''Category'', ''Payment Method'',
       ''Notes'', ''Receipt Date'', ''Added Date''], 0)
   \<and> assemble headerless_rows = build_frame default_headers [[''2024-02-20'', ''Shop'', ''10'']]"
  using default_headers_fallback [OF headerless_not_header]
  by (simp add: headerless_rows_def)

text \<open>
  Claim C10. A load that does not fail returns at least one record: empty input gives
  \<open>None\<close>, and so does a table whose records are all filtered out.
\<close>

theorem load_never_empty:
  "(load L all_values = Some df \<longrightarrow> rows df \<noteq> [])
   \<and> load L [] = None
   \<and> (tidy L all_values = Some df1 \<and> rows (filter_invalid df1) = [] \<longrightarrow> load L all_values = None)"
  by (auto simp: load_def tidy_def assemble_def empty_def Let_def split: option.splits)

text \<open>A sheet that loads, and a sheet whose only record has a negative amount.\<close>

theorem load_never_empty_witness:
  "(\<exists>df. load sample_env example_rows = Some df \<and> rows df \<noteq> [])
   \<and> (\<exists>df1. tidy sample_env invalid_rows = Some df1 \<and> rows (filter_invalid df1) = []
         \<and> load sample_env invalid_rows = None)"
proof
  from sample_example_load obtain df where ld: "load sample_env example_rows = Some df"
    by blast
  with load_never_empty [of sample_env example_rows df] show
    "\<exists>df. load sample_env example_rows = Some df \<and> rows df \<noteq> []" by blast
next
  from invalid_tidy obtain df1 where t: "tidy sample_env invalid_rows = Some df1"
    and e: "rows (filter_invalid df1) = []" by blast
  with load_never_empty [of sample_env invalid_rows _ df1]
  show "\<exists>df1. tidy sample_env invalid_rows = Some df1 \<and> rows (filter_invalid df1) = []
         \<and> load sample_env invalid_rows = None" by blast
qed

section \<open>Amount normalization\<close>

lemma remove_all_subset: "set (remove_all old s) \<subseteq> set s"
proof (induction old s rule: remove_all.induct)
  case (1 old)
  then show ?case by simp
next
  case (2 old c cs)
  show ?case
  proof (cases "old \<noteq> [] \<and> prefix old (c # cs)")
    case True
    with 2 have "set (remove_all old (drop (length old) (c # cs))) \<subseteq> set (drop (length old) (c # cs))"
      by simp
    also have "\<dots> \<subseteq> set (c # cs)" by (rule set_drop_subset)
    finally show ?thesis using True by simp
  next
    case False
    with 2 show ?thesis by auto
  qed
qed

lemma remove_all_char: "c \<notin> set (remove_all [c] s)"
proof (induction "[c]" s rule: remove_all.induct)
  case 1
  then show ?case by simp
next
  case (2 d cs)
  then show ?case by (cases "d = c") auto
qed

lemma remove_all_keeps:
  "set old \<subseteq> K \<Longrightarrow> filter (\<lambda>c. c \<notin> K) (remove_all old s) = filter (\<lambda>c. c \<notin> K) s"
proof (induction old s rule: remove_all.induct)
  case (1 old)
  then show ?case by simp
next
  case (2 old c cs)
  show ?case
  proof (cases "old \<noteq> [] \<and> prefix old (c # cs)")
    case True
    then obtain rest where split: "c # cs = old @ rest" by (auto simp: prefix_def)
    then have dr: "drop (length old) (c # cs) = rest" by simp
    from "2.prems" have gone: "filter (\<lambda>c. c \<notin> K) old = []"
      by (auto simp: filter_empty_conv)
    from 2 True have "filter (\<lambda>c. c \<notin> K) (remove_all old (drop (length old) (c # cs)))
        = filter (\<lambda>c. c \<notin> K) (drop (length old) (c # cs))" by simp
    then have "filter (\<lambda>c. c \<notin> K) (remove_all old (c # cs)) = filter (\<lambda>c. c \<notin> K) rest"
      using True dr by simp
    also have "\<dots> = filter (\<lambda>c. c \<notin> K) (c # cs)"
      unfolding split using gone by simp
    finally show ?thesis .
  next
    case False
    with 2 show ?thesis by auto
  qed
qed

lemma clean_amount_text_markers:
  "CHR '','' \<notin> set (clean_amount_text s) \<and> CHR ''P'' \<notin> set (clean_amount_text s)
   \<and> CHR ''$'' \<notin> set (clean_amount_text s)"
proof -
  have a: "CHR '','' \<notin> set (remove_all '','' s)" by (rule remove_all_char)
  have "set (clean_amount_text s) \<subseteq> set (remove_all '','' s)"
    unfolding clean_amount_text_def
    by (meson remove_all_subset order_trans)
  with a have 1: "CHR '','' \<notin> set (clean_amount_text s)" by blast
  have "set (clean_amount_text s)
      \<subseteq> set (remove_all ''P'' (remove_all ''PHP'' (remove_all peso (remove_all '','' s))))"
    unfolding clean_amount_text_def by (rule remove_all_subset)
  with remove_all_char [of "CHR ''P''"] have 2: "CHR ''P'' \<notin> set (clean_amount_text s)" by blast
  have 3: "CHR ''$'' \<notin> set (clean_amount_text s)"
    unfolding clean_amount_text_def by (rule remove_all_char)
  from 1 2 3 show ?thesis by blast
qed

lemma clean_amount_text_keeps:
  "filter (\<lambda>c. c \<notin> marker_chars) (clean_amount_text s) = filter (\<lambda>c. c \<notin> marker_chars) s"
proof -
  have m: "set '','' \<subseteq> marker_chars" "set peso \<subseteq> marker_chars" "set ''PHP'' \<subseteq> marker_chars"
    "set ''P'' \<subseteq> marker_chars" "set ''$'' \<subseteq> marker_chars"
    by (auto simp: marker_chars_def)
  show ?thesis
    unfolding clean_amount_text_def
    by (simp only: remove_all_keeps [OF m(1)] remove_all_keeps [OF m(2)]
        remove_all_keeps [OF m(3)] remove_all_keeps [OF m(4)] remove_all_keeps [OF m(5)])
qed

lemma clean_peso_example: "clean_amount_text (peso @ ''1,234.50'') = ''1234.50''"
  by (simp add: clean_amount_text_def peso_def)

lemma clean_php_example: "clean_amount_text ''PHP 1,234.50'' = '' 1234.50''"
  by (simp add: clean_amount_text_def peso_def)

lemma clean_amount_Some:
  assumes "clean_amount L df = Some df'"
  shows "\<exists>col f. find_amount_col L df = Some col \<and> col \<noteq> []
           \<and> to_numeric L (map (\<lambda>r. Str (clean_amount_text (py_str L (r col)))) (rows df)) = Some f
           \<and> rows df' = map (\<lambda>r. r(''Amount'' := Num (f (Str (clean_amount_text (py_str L (r col))))))) (rows df)"
  using assms
  by (auto simp: clean_amount_def Let_def assign_def column_def comp_def
      split: option.splits if_splits)

lemma clean_amount_single:
  assumes "find_amount_col L df = Some col" and "col \<noteq> []" and "rows df = [r]"
    and "r col = Str (peso @ ''1,234.50'')"
    and "to_numeric L [Str ''1234.50''] = Some f" and "f (Str ''1234.50'') = Some 1234.5"
  shows "\<exists>df' r'. clean_amount L df = Some df' \<and> rows df' = [r'] \<and> r' ''Amount'' = Num (Some 1234.5)"
  using assms
  by (simp add: clean_amount_def Let_def assign_def column_def py_str_def clean_peso_example)

lemma peso_assemble:
  "assemble peso_rows =
     Some \<lparr>columns = [''Date'', ''Amount'', ''Store''],
           rows = [row_of_dict [(''Date'', ''2024-02-20''), (''Amount'', peso @ ''1,234.50''),
                                (''Store'', ''Shop'')]]\<rparr>"
  by (simp add: peso_rows_def peso_def assemble_eval)

lemma sample_numeric_1234_50: "sample_numeric (Str ''1234.50'') = Some 1234.5"
  by (simp add: sample_eval strip_def is_space_def)

text \<open>
  Claim C8. The amount of a record is what \<open>to_numeric\<close> gives the cleaned text of its
  amount cell, NaN (a missing amount) when that text is not numeric. The cleaned text
  holds no comma, no \<open>P\<close> and no dollar sign, and every character that belongs to no
  marker is kept in place. The cell with the peso sign before \<open>1,234.50\<close> is cleaned to
  \<open>1234.50\<close>, so its amount is exactly 1234.5 whenever the library reads that text
  as 1234.5.
\<close>

theorem amount_normalization:
  "(clean_amount L df = Some df' \<longrightarrow>
      (\<exists>col f. find_amount_col L df = Some col
         \<and> to_numeric L (map (\<lambda>r. Str (clean_amount_text (py_str L (r col)))) (rows df)) = Some f
         \<and> rows df' =
             map (\<lambda>r. r(''Amount'' := Num (f (Str (clean_amount_text (py_str L (r col)))))))
               (rows df)))
   \<and> CHR '','' \<notin> set (clean_amount_text s) \<and> CHR ''P'' \<notin> set (clean_amount_text s)
   \<and> CHR ''$'' \<notin> set (clean_amount_text s)
   \<and> filter (\<lambda>c. c \<notin> marker_chars) (clean_amount_text s) = filter (\<lambda>c. c \<notin> marker_chars) s
   \<and> clean_amount_text (peso @ ''1,234.50'') = ''1234.50''
   \<and> (find_amount_col L d = Some c \<and> c \<noteq> [] \<and> rows d = [r] \<and> r c = Str (peso @ ''1,234.50'')
        \<and> to_numeric L [Str ''1234.50''] = Some g \<and> g (Str ''1234.50'') = Some 1234.5 \<longrightarrow>
        (\<exists>d' r'. clean_amount L d = Some d' \<and> rows d' = [r'] \<and> r' ''Amount'' = Num (Some 1234.5)))"
  using clean_amount_Some [of L df df'] clean_amount_text_markers [of s]
    clean_amount_text_keeps [of s] clean_peso_example clean_amount_single [of L d c r g]
  by blast

text \<open>The sample environment on the sheet with the peso amount.\<close>

theorem amount_normalization_witness:
  "\<exists>df0 df' r'. assemble peso_rows = Some df0 \<and> clean_amount sample_env df0 = Some df'
     \<and> rows df' = [r'] \<and> r' ''Amount'' = Num (Some 1234.5)"
proof -
  let ?r = "row_of_dict [(''Date'', ''2024-02-20''), (''Amount'', peso @ ''1,234.50''),
                         (''Store'', ''Shop'')]"
  let ?df = "\<lparr>columns = [''Date'', ''Amount'', ''Store''], rows = [?r]\<rparr>"
  have col: "find_amount_col sample_env ?df = Some ''Amount''"
    by (simp add: find_amount_col_def string_eval)
  have cell: "?r ''Amount'' = Str (peso @ ''1,234.50'')"
    by (simp add: row_of_dict_def)
  have num: "to_numeric sample_env [Str ''1234.50''] = Some sample_numeric"
    by (simp add: sample_env_def)
  from amount_normalization [of sample_env ?df _ _ ?df "''Amount''" ?r sample_numeric]
    col cell num sample_numeric_1234_50
  have "\<exists>d' r'. clean_amount sample_env ?df = Some d' \<and> rows d' = [r']
          \<and> r' ''Amount'' = Num (Some 1234.5)"
    by simp
  with peso_assemble show ?thesis by blast
qed

section \<open>The duplicate check\<close>

lemmas check_eval = check_expense_def match_reason_def amount_diff_def diff_le_def
  merchant_similarity_of_def new_merchant_of_def new_amount_of_def expense_merchant_of_def

lemma first_max_split:
  "\<exists>pre post. b # xs = pre @ first_max key b xs # post
     \<and> (\<forall>y \<in> set pre. key y < key (first_max key b xs))
     \<and> (\<forall>y \<in> set post. key y \<le> key (first_max key b xs))"
proof (induction xs arbitrary: b)
  case Nil
  have "[b] = [] @ first_max key b [] # []" by simp
  then show ?case by fastforce
next
  case (Cons x xs)
  show ?case
  proof (cases "key b < key x")
    case True
    let ?m = "first_max key x xs"
    from True have m: "first_max key b (x # xs) = ?m" by simp
    from Cons.IH [of x] obtain pre post where sx: "x # xs = pre @ ?m # post"
      and lt: "\<forall>y \<in> set pre. key y < key ?m" and le: "\<forall>y \<in> set post. key y \<le> key ?m"
      by blast
    have "key x \<le> key ?m"
    proof (cases pre)
      case Nil
      with sx have "?m = x" by (metis append_Nil list.inject)
      then show ?thesis by simp
    next
      case (Cons p ps)
      with sx have "x \<in> set pre" by simp
      with lt show ?thesis by fastforce
    qed
    with True have "key b < key ?m" by simp
    with sx lt le have "b # x # xs = (b # pre) @ ?m # post
        \<and> (\<forall>y \<in> set (b # pre). key y < key ?m) \<and> (\<forall>y \<in> set post. key y \<le> key ?m)"
      by simp
    then show ?thesis unfolding m by blast
  next
    case False
    let ?m = "first_max key b xs"
    from False have m: "first_max key b (x # xs) = ?m" by simp
    from Cons.IH [of b] obtain pre post where sb: "b # xs = pre @ ?m # post"
      and lt: "\<forall>y \<in> set pre. key y < key ?m" and le: "\<forall>y \<in> set post. key y \<le> key ?m"
      by blast
    show ?thesis
    proof (cases pre)
      case Nil
      with sb have mb: "?m = b" and px: "post = xs" by (metis append_Nil list.inject)+
      from False mb have "key x \<le> key ?m" by simp
      with le mb px have "b # x # xs = [] @ ?m # (x # post)
          \<and> (\<forall>y \<in> set []. key y < key ?m) \<and> (\<forall>y \<in> set (x # post). key y \<le> key ?m)"
        by simp
      then show ?thesis unfolding m by blast
    next
      case (Cons p ps)
      with sb have p: "p = b" and rest: "xs = ps @ ?m # post"
        by (metis append_Cons list.inject)+
      from Cons p lt have "key b < key ?m" by simp
      with False have "key x < key ?m" by simp
      with Cons p rest lt le have "b # x # xs = (b # x # ps) @ ?m # post
          \<and> (\<forall>y \<in> set (b # x # ps). key y < key ?m) \<and> (\<forall>y \<in> set post. key y \<le> key ?m)"
        by simp
      then show ?thesis unfolding m by blast
    qed
  qed
qed

lemma now_sample: "now sample_env = 1709251200000000000"
  by (simp add: sample_env_def nanos_per_day_def)

lemma future_assemble:
  "assemble future_rows =
     Some \<lparr>columns = [''Date'', ''Amount'', ''Store''],
           rows = [row_of_dict [(''Date'', ''2024-03-05''), (''Amount'', ''10''), (''Store'', ''Shop'')]]\<rparr>"
  by (simp add: future_rows_def assemble_eval)

lemma future_load:
  "\<exists>df r. load sample_env future_rows = Some df \<and> ''Date'' \<in> set (columns df)
     \<and> rows df = [r] \<and> r ''Date'' = Time (Some 1709596800000000000)"
  unfolding load_def tidy_def future_assemble
  by (simp add: frame_eval string_eval sample_eval)

lemma window_assemble:
  "assemble window_rows =
     Some \<lparr>columns = [''Date'', ''Amount'', ''Store''],
           rows = [row_of_dict [(''Date'', ''2024-02-20''), (''Amount'', ''10''), (''Store'', ''Shop'')],
                   row_of_dict [(''Date'', ''2024-01-21''), (''Amount'', ''10''), (''Store'', ''Shop'')],
                   row_of_dict [(''Date'', ''2024-03-05''), (''Amount'', ''10''), (''Store'', ''Shop'')]]\<rparr>"
  by (simp add: window_rows_def assemble_eval)

lemma window_load:
  "\<exists>df r1 r2 r3. load sample_env window_rows = Some df \<and> ''Date'' \<in> set (columns df)
     \<and> rows df = [r1, r2, r3] \<and> r1 ''Date'' = Time (Some 1708387200000000000)
     \<and> r2 ''Date'' = Time (Some 1705795200000000000)
     \<and> r3 ''Date'' = Time (Some 1709596800000000000)"
  unfolding load_def tidy_def window_assemble
  by (simp add: frame_eval string_eval sample_eval)

lemma dup_assemble:
  "assemble dup_rows =
     Some \<lparr>columns = [''Date'', ''Amount'', ''Store''],
           rows = [row_of_dict [(''Date'', ''2024-02-20''), (''Amount'', ''10''), (''Store'', ''Shop'')],
                   row_of_dict [(''Date'', ''2024-02-21''), (''Amount'', ''10''), (''Store'', ''Shop'')],
                   row_of_dict [(''Date'', ''2024-02-22''), (''Amount'', ''10''), (''Store'', ''Other'')]]\<rparr>"
  by (simp add: dup_rows_def assemble_eval)

lemma dup_load:
  "\<exists>df. load sample_env dup_rows = Some df
     \<and> duplicates_found sample_env df shop_receipt =
         [\<lparr>amount = Num (Some 10), shown_merchant = ''shop'',
           date = Some (Time (Some 1708387200000000000)),
           reason = ''Exact amount + similar merchant'', similarity = 100\<rparr>,
          \<lparr>amount = Num (Some 10), shown_merchant = ''shop'',
           date = Some (Time (Some 1708473600000000000)),
           reason = ''Exact amount + similar merchant'', similarity = 100\<rparr>]"
  unfolding load_def tidy_def dup_assemble
  by (simp add: frame_eval string_eval sample_eval duplicates_found_def recent_expenses_def
      check_eval List.map_filter_simps shop_receipt_def thirty_days_def)

text \<open>
  The record of the sheet without dates, dated by its amount ten nanoseconds after the
  epoch, is older than every cutoff: a receipt of the same shop and amount is compared
  with no record.
\<close>

lemma undated_sheet_unchecked:
  "detect_duplicates sample_env (Some undated_rows) shop_receipt =
     (False, Plain ''No duplicates detected'')"
  by (simp add: detect_duplicates_def get_expenses_dataframe_def load_def undated_assemble
      frame_eval string_eval sample_eval check_def duplicates_found_def
      recent_expenses_def List.map_filter_simps thirty_days_def)

text \<open>
  Claim C1. For a candidate and a record with a numeric amount, the rules are tried in
  the order of the source and the first that holds decides: an amount difference of 0
  with a similarity of at least 70 gives \<open>Exact amount + similar merchant\<close>; otherwise
  a difference of at most 2 with a similarity of at least 85 gives
  \<open>Very close amount + very similar merchant\<close>; otherwise a difference of 0 with an
  empty candidate or record merchant gives \<open>Exact amount (merchant info missing)\<close>;
  otherwise the record is no duplicate. The merchants compared are lower-cased and
  trimmed, and the similarity is 0 when either of them is empty.
\<close>

theorem duplicate_rules:
  assumes "expense ''Amount'' = Num (Some a)"
  shows "let new_amount = new_amount_of new_expense;
             new_merchant = new_merchant_of new_expense;
             expense_merchant = expense_merchant_of L df mc expense;
             diff = \<bar>a - new_amount\<bar>;
             sim = (if new_merchant \<noteq> [] \<and> expense_merchant \<noteq> []
                    then ratio L expense_merchant new_merchant else 0)
         in new_merchant = strip (lower (case merchant new_expense of None \<Rightarrow> [] | Some m \<Rightarrow> m))
            \<and> (\<forall>col. mc = Some col \<and> col \<noteq> [] \<and> col \<in> set (columns df) \<longrightarrow>
                  expense_merchant = strip (lower (py_str L (expense col))))
            \<and> (mc = None \<longrightarrow> expense_merchant = [])
            \<and> map_option (\<lambda>d. (reason d, similarity d))
                 (check_expense L df mc new_amount new_merchant expense) =
               (if diff = 0 \<and> 70 \<le> sim then Some (''Exact amount + similar merchant'', sim)
                else if diff \<le> 2 \<and> 85 \<le> sim
                then Some (''Very close amount + very similar merchant'', sim)
                else if diff = 0 \<and> (new_merchant = [] \<or> expense_merchant = [])
                then Some (''Exact amount (merchant info missing)'', sim)
                else None)"
  using assms by (simp add: Let_def check_eval)

text \<open>
  The four cases on records of a frame with a \<open>Store\<close> column: a tier-1, a tier-2 and a
  missing-merchant duplicate, and a record that is none.
\<close>

theorem duplicate_rules_witness:
  "map_option (\<lambda>d. (reason d, similarity d))
     (check_expense sample_env store_frame (Some ''Store'')
        (new_amount_of \<lparr>total_amount = Some 100, merchant = Some ''Jollibee''\<rparr>)
        (new_merchant_of \<lparr>total_amount = Some 100, merchant = Some ''Jollibee''\<rparr>)
        (store_record 100 ''jollibee '')) =
     Some (''Exact amount + similar merchant'', 100)
   \<and> map_option (\<lambda>d. (reason d, similarity d))
     (check_expense sample_env store_frame (Some ''Store'')
        (new_amount_of \<lparr>total_amount = Some 101.5, merchant = Some ''SM Grocery''\<rparr>)
        (new_merchant_of \<lparr>total_amount = Some 101.5, merchant = Some ''SM Grocery''\<rparr>)
        (store_record 100 ''sm grocery'')) =
     Some (''Very close amount + very similar merchant'', 100)
   \<and> map_option (\<lambda>d. (reason d, similarity d))
     (check_expense sample_env store_frame (Some ''Store'')
        (new_amount_of \<lparr>total_amount = Some 75, merchant = Some []\<rparr>)
        (new_merchant_of \<lparr>total_amount = Some 75, merchant = Some []\<rparr>)
        (store_record 75 ''Unknown'')) =
     Some (''Exact amount (merchant info missing)'', 0)
   \<and> map_option (\<lambda>d. (reason d, similarity d))
     (check_expense sample_env store_frame (Some ''Store'')
        (new_amount_of \<lparr>total_amount = Some 50, merchant = Some ''Shell''\<rparr>)
        (new_merchant_of \<lparr>total_amount = Some 50, merchant = Some ''Shell''\<rparr>)
        (store_record 200 ''Shell'')) = None"
proof -
  note ev = Let_def store_record_def store_frame_def new_amount_of_def new_merchant_of_def
    expense_merchant_of_def py_str_def string_eval sample_env_def sample_ratio_def
  have a: "store_record x m ''Amount'' = Num (Some x)" for x m
    by (simp add: store_record_def)
  show ?thesis
    using
      duplicate_rules [where expense = "store_record 100 ''jollibee ''" and a = 100
        and new_expense = "\<lparr>total_amount = Some 100, merchant = Some ''Jollibee''\<rparr>"
        and L = sample_env and df = store_frame and mc = "Some ''Store''"]
      duplicate_rules [where expense = "store_record 100 ''sm grocery''" and a = 100
        and new_expense = "\<lparr>total_amount = Some 101.5, merchant = Some ''SM Grocery''\<rparr>"
        and L = sample_env and df = store_frame and mc = "Some ''Store''"]
      duplicate_rules [where expense = "store_record 75 ''Unknown''" and a = 75
        and new_expense = "\<lparr>total_amount = Some 75, merchant = Some []\<rparr>"
        and L = sample_env and df = store_frame and mc = "Some ''Store''"]
      duplicate_rules [where expense = "store_record 200 ''Shell''" and a = 200
        and new_expense = "\<lparr>total_amount = Some 50, merchant = Some ''Shell''\<rparr>"
        and L = sample_env and df = store_frame and mc = "Some ''Store''"]
    by (simp add: ev)
qed

text \<open>
  The pool is not the trailing 30-day window: a record dated after now is compared,
  though no window that ends now holds it.
\<close>

theorem trailing_window_counterexample:
  "\<exists>df. load sample_env future_rows = Some df \<and> ''Date'' \<in> set (columns df)
     \<and> recent_expenses sample_env df
         \<noteq> filter (\<lambda>r. in_trailing_window sample_env (r ''Date'')) (rows df)"
proof -
  from future_load obtain df r where ld: "load sample_env future_rows = Some df"
    and c: "''Date'' \<in> set (columns df)" and rs: "rows df = [r]"
    and d: "r ''Date'' = Time (Some 1709596800000000000)" by blast
  have "recent_expenses sample_env df = [r]"
    by (simp add: recent_expenses_def c rs d now_sample thirty_days_def)
  moreover have "filter (\<lambda>r. in_trailing_window sample_env (r ''Date'')) (rows df) = []"
    by (simp add: rs d in_trailing_window_def now_sample thirty_days_def)
  ultimately show ?thesis using ld c by auto
qed

text \<open>
  Claim C6, amended. When the loaded records carry dates, the pool is exactly the
  records dated on or after 30 days before now, with no upper bound: it holds every
  record of the trailing 30-day window, it excludes a record dated 40 days ago, and it
  holds every record dated later than now.
\<close>

theorem recent_pool:
  assumes "''Date'' \<in> set (columns df)"
  shows "recent_expenses L df =
           filter (\<lambda>r. \<exists>t. r ''Date'' = Time (Some t) \<and> now L - thirty_days \<le> t) (rows df)
         \<and> filter (\<lambda>r. in_trailing_window L (r ''Date'')) (recent_expenses L df) =
             filter (\<lambda>r. in_trailing_window L (r ''Date'')) (rows df)
         \<and> (\<forall>r \<in> set (rows df).
               r ''Date'' = Time (Some (now L - 40 * nanos_per_day)) \<longrightarrow>
               r \<notin> set (recent_expenses L df))
         \<and> (\<forall>r \<in> set (rows df). \<forall>t.
               r ''Date'' = Time (Some t) \<and> now L < t \<longrightarrow> r \<in> set (recent_expenses L df))"
proof -
  have oa: "on_or_after c x \<longleftrightarrow> (\<exists>t. x = Time (Some t) \<and> c \<le> t)" for c x
    by (cases "(c, x)" rule: on_or_after.cases) auto
  have win: "in_trailing_window L x \<Longrightarrow> on_or_after (now L - thirty_days) x" for x
    by (auto simp: in_trailing_window_def split: cell.splits option.splits)
  have dated: "recent_expenses L df =
        filter (\<lambda>r. \<exists>t. r ''Date'' = Time (Some t) \<and> now L - thirty_days \<le> t) (rows df)"
    using assms by (simp add: recent_expenses_def oa)
  have window: "filter (\<lambda>r. in_trailing_window L (r ''Date'')) (recent_expenses L df) =
          filter (\<lambda>r. in_trailing_window L (r ''Date'')) (rows df)"
    using assms win by (auto simp: recent_expenses_def intro: filter_cong)
  have old: "r \<notin> set (recent_expenses L df)"
    if "r ''Date'' = Time (Some (now L - 40 * nanos_per_day))" for r
    using assms that by (simp add: recent_expenses_def thirty_days_def nanos_per_day_def)
  have ahead: "r \<in> set (recent_expenses L df)"
    if "r \<in> set (rows df)" and "r ''Date'' = Time (Some t)" and "now L < t" for r t
    using assms that by (simp add: recent_expenses_def thirty_days_def)
  from dated window old ahead show ?thesis by blast
qed

text \<open>
  Read on 2024-03-01: of the loaded records dated 2024-02-20, 2024-01-21 and 2024-03-05
  the first and the last are compared.
\<close>

theorem recent_pool_witness:
  "\<exists>df r1 r2 r3. load sample_env window_rows = Some df \<and> ''Date'' \<in> set (columns df)
      \<and> rows df = [r1, r2, r3]
      \<and> r2 ''Date'' = Time (Some (now sample_env - 40 * nanos_per_day))
      \<and> r3 ''Date'' = Time (Some (now sample_env + 4 * nanos_per_day))
      \<and> recent_expenses sample_env df = [r1, r3]"
proof -
  from window_load obtain df r1 r2 r3 where ld: "load sample_env window_rows = Some df"
    and c: "''Date'' \<in> set (columns df)" and rs: "rows df = [r1, r2, r3]"
    and d1: "r1 ''Date'' = Time (Some 1708387200000000000)"
    and d2: "r2 ''Date'' = Time (Some 1705795200000000000)"
    and d3: "r3 ''Date'' = Time (Some 1709596800000000000)" by blast
  from recent_pool [OF c, of sample_env]
  have "recent_expenses sample_env df =
      filter (\<lambda>r. \<exists>t. r ''Date'' = Time (Some t) \<and> now sample_env - thirty_days \<le> t) (rows df)"
    by blast
  then have "recent_expenses sample_env df = [r1, r3]"
    by (simp add: rs d1 d2 d3 now_sample thirty_days_def)
  moreover have "r2 ''Date'' = Time (Some (now sample_env - 40 * nanos_per_day))"
    "r3 ''Date'' = Time (Some (now sample_env + 4 * nanos_per_day))"
    by (simp_all add: d2 d3 now_sample nanos_per_day_def)
  ultimately show ?thesis using ld c rs by blast
qed

text \<open>
  Claim C7. When records of the pool qualify, the best match is the first of the
  qualifying records, in scan order, whose similarity is the highest: every qualifying
  record before it has a smaller similarity and none after it has a greater one. When
  more than one qualifies, the message carries their number.
\<close>

theorem best_match:
  assumes "duplicates_found L df new_expense = ds" and "ds \<noteq> []"
  shows "\<exists>msg pre post. check L df new_expense = (True, Possible_duplicate msg)
           \<and> similar_count msg = (if 1 < length ds then Some (length ds) else None)
           \<and> ds = pre @ existing msg # post
           \<and> (\<forall>d \<in> set pre. similarity d < similarity (existing msg))
           \<and> (\<forall>d \<in> set post. similarity d \<le> similarity (existing msg))"
proof -
  from assms(2) obtain d rest where ds: "ds = d # rest" by (cases ds) auto
  let ?msg = "\<lparr>new_receipt_amount = new_amount_of new_expense,
               new_receipt_merchant =
                 (if new_merchant_of new_expense \<noteq> [] then new_merchant_of new_expense
                  else ''Unknown''),
               existing = first_max similarity d rest,
               similar_count = (if 1 < length ds then Some (length ds) else None)\<rparr>"
  have chk: "check L df new_expense = (True, Possible_duplicate ?msg)"
    using assms(1) ds by (simp add: check_def)
  from first_max_split [of d rest similarity] obtain pre post
    where "ds = pre @ existing ?msg # post"
      and "\<forall>y \<in> set pre. similarity y < similarity (existing ?msg)"
      and "\<forall>y \<in> set post. similarity y \<le> similarity (existing ?msg)"
    unfolding ds by auto
  moreover have "similar_count ?msg = (if 1 < length ds then Some (length ds) else None)"
    by simp
  ultimately show ?thesis using chk by blast
qed

text \<open>
  Two records of the same shop and amount qualify with equal similarity: the earlier
  one is reported, and the count is 2.
\<close>

theorem best_match_witness:
  "\<exists>df msg. load sample_env dup_rows = Some df
     \<and> check sample_env df shop_receipt = (True, Possible_duplicate msg)
     \<and> similar_count msg = Some 2
     \<and> date (existing msg) = Some (Time (Some 1708387200000000000))"
proof -
  let ?d1 = "\<lparr>amount = Num (Some 10), shown_merchant = ''shop'',
           date = Some (Time (Some 1708387200000000000)),
           reason = ''Exact amount + similar merchant'', similarity = 100\<rparr>"
  let ?d2 = "\<lparr>amount = Num (Some 10), shown_merchant = ''shop'',
           date = Some (Time (Some 1708473600000000000)),
           reason = ''Exact amount + similar merchant'', similarity = 100\<rparr>"
  from dup_load obtain df where ld: "load sample_env dup_rows = Some df"
    and ds: "duplicates_found sample_env df shop_receipt = [?d1, ?d2]" by blast
  from best_match [OF ds] obtain msg pre post
    where chk: "check sample_env df shop_receipt = (True, Possible_duplicate msg)"
      and cnt: "similar_count msg = Some 2"
      and split: "[?d1, ?d2] = pre @ existing msg # post"
      and lt: "\<forall>d \<in> set pre. similarity d < similarity (existing msg)"
    by auto
  have "pre = []"
  proof (cases pre)
    case Nil
    then show ?thesis .
  next
    case (Cons p ps)
    with split have "p = ?d1" and "existing msg \<in> {?d1, ?d2}"
      by (auto simp: Cons_eq_append_conv)
    with lt Cons show ?thesis by auto
  qed
  with split have "existing msg = ?d1" by simp
  then have "date (existing msg) = Some (Time (Some 1708387200000000000))" by simp
  with ld chk cnt show ?thesis by blast
qed

end
